theory Spec2Isabelle
  imports Main "HOL-Library.Multiset" "HOL-Library.Char_ord" "HOL-Library.List_Lexorder"
begin

section \<open>Values\<close>

text \<open>
  The manifests, handler payloads and status patches of the operator are nested Python
  dictionaries and lists of strings and integers. A dictionary literal keeps the order in
  which its keys are written, so it is an association list here.
\<close>

datatype json = JStr string | JInt int | JList "json list" | JDict "(string \<times> json) list"

text \<open>\<open>d[k]\<close> and \<open>xs[i]\<close> on such a value; \<open>None\<close> where Python raises.\<close>

fun jget :: "string \<Rightarrow> json \<Rightarrow> json option" where
  "jget k (JDict kvs) = map_of kvs k"
| "jget k _ = None"

fun jnth :: "nat \<Rightarrow> json \<Rightarrow> json option" where
  "jnth i (JList xs) = (if i < length xs then Some (xs ! i) else None)"
| "jnth i _ = None"

fun jpath :: "string list \<Rightarrow> json \<Rightarrow> json option" where
  "jpath [] j = Some j"
| "jpath (k # ks) j = (case jget k j of None \<Rightarrow> None | Some j' \<Rightarrow> jpath ks j')"

text \<open>
  The \<open>database\<close> and \<open>storage\<close> sections of a resource's spec are dictionaries from
  field names to strings.
\<close>

type_synonym section_dict = "string \<rightharpoonup> string"

text \<open>The exceptions a handler can end with.\<close>

record ApiException =
  status_text :: string
  reason_text :: string
  headers_text :: "string option"
  body_text :: "string option"

datatype exn =
    PermanentError string
  | TemporaryError string int
  | KeyError string
  | ValueError string
  | ApiError ApiException

text \<open>
  Sequencing of statements that may raise: the first exception ends the computation.
\<close>

definition and_then :: "exn + 'a \<Rightarrow> ('a \<Rightarrow> exn + 'b) \<Rightarrow> exn + 'b" where
  "and_then r f = (case r of Inl e \<Rightarrow> Inl e | Inr a \<Rightarrow> f a)"

section \<open>config.py\<close>

record DatabaseConfig =
  db_supported_types :: "string list"
  default_ports :: "(string \<times> int) list"
  images :: "(string \<times> string) list"

record StorageConfig =
  st_supported_types :: "string list"
  default_regions :: "(string \<times> string) list"

record BackupConfig =
  default_schedule :: string
  default_retention_days :: int
  successful_jobs_history_limit :: int
  failed_jobs_history_limit :: int
  backup_timeout_seconds :: int
  memory_request :: string
  memory_limit :: string
  cpu_request :: string
  cpu_limit :: string
  temp_storage_size :: string

record OperatorConfig =
  cfg_name :: string
  cfg_version :: string
  cfg_namespace :: "string option"
  database :: DatabaseConfig
  storage :: StorageConfig
  backup :: BackupConfig
  reconciliation_interval :: int
  log_level :: string
  enable_webhooks :: bool
  enable_metrics :: bool

text \<open>The dataclasses' default values.\<close>

definition DatabaseConfig_default :: DatabaseConfig where
  "DatabaseConfig_default =
     \<lparr> db_supported_types = [''postgres'', ''mysql'', ''mongodb''],
       default_ports = [(''postgres'', 5432), (''mysql'', 3306), (''mongodb'', 27017)],
       images = [(''postgres'', ''postgres:15-alpine''), (''mysql'', ''mysql:8.0''),
                 (''mongodb'', ''mongo:7.0'')] \<rparr>"

definition StorageConfig_default :: StorageConfig where
  "StorageConfig_default =
     \<lparr> st_supported_types = [''s3'', ''gcs'', ''azure''],
       default_regions = [(''s3'', ''us-east-1''), (''gcs'', ''us-central1''),
                          (''azure'', ''eastus'')] \<rparr>"

definition BackupConfig_default :: BackupConfig where
  "BackupConfig_default =
     \<lparr> default_schedule = ''0 2 * * *'',
       default_retention_days = 7,
       successful_jobs_history_limit = 3,
       failed_jobs_history_limit = 1,
       backup_timeout_seconds = 3600,
       memory_request = ''256Mi'',
       memory_limit = ''512Mi'',
       cpu_request = ''100m'',
       cpu_limit = ''500m'',
       temp_storage_size = ''10Gi'' \<rparr>"

text \<open>
  \<open>OperatorConfig()\<close>: three fields are read from the process environment when the
  object is built; they are the arguments here.
\<close>

definition OperatorConfig_default :: "string \<Rightarrow> bool \<Rightarrow> bool \<Rightarrow> OperatorConfig" where
  "OperatorConfig_default lvl webhooks metrics =
     \<lparr> cfg_name = ''db-backup-operator'',
       cfg_version = ''0.1.0'',
       cfg_namespace = None,
       database = DatabaseConfig_default,
       storage = StorageConfig_default,
       backup = BackupConfig_default,
       reconciliation_interval = 300,
       log_level = lvl,
       enable_webhooks = webhooks,
       enable_metrics = metrics \<rparr>"

text \<open>\<open>OperatorConfig.validate\<close>: the first failing check raises \<open>ValueError\<close>.\<close>

definition validate :: "OperatorConfig \<Rightarrow> exn + unit" where
  "validate c =
     (if reconciliation_interval c < 60
        then Inl (ValueError ''Reconciliation interval must be at least 60 seconds'')
      else if default_retention_days (backup c) < 1
        then Inl (ValueError ''Retention days must be at least 1'')
      else if backup_timeout_seconds (backup c) < 60
        then Inl (ValueError ''Backup timeout must be at least 60 seconds'')
      else Inr ())"

text \<open>
  \<open>images.get(db_type, images['postgres'])\<close>: Python evaluates the default argument
  before the call, so a table without the key \<open>postgres\<close> raises \<open>KeyError\<close> whatever
  \<open>db_type\<close> is.
\<close>

definition get_database_image :: "OperatorConfig \<Rightarrow> string \<Rightarrow> exn + string" where
  "get_database_image c db_type =
     (case map_of (images (database c)) ''postgres'' of
        None \<Rightarrow> Inl (KeyError ''postgres'')
      | Some dflt \<Rightarrow>
          (case map_of (images (database c)) db_type of
             None \<Rightarrow> Inr dflt
           | Some img \<Rightarrow> Inr img))"

definition get_default_region :: "OperatorConfig \<Rightarrow> string \<Rightarrow> string" where
  "get_default_region c storage_type =
     (case map_of (default_regions (storage c)) storage_type of
        None \<Rightarrow> ''us-east-1''
      | Some r \<Rightarrow> r)"

definition is_database_supported :: "OperatorConfig \<Rightarrow> string \<Rightarrow> bool" where
  "is_database_supported c db_type \<longleftrightarrow> db_type \<in> set (db_supported_types (database c))"

definition is_storage_supported :: "OperatorConfig \<Rightarrow> string \<Rightarrow> bool" where
  "is_storage_supported c storage_type \<longleftrightarrow> storage_type \<in> set (st_supported_types (storage c))"

text \<open>
  The module's global \<open>_config\<close> and \<open>get_config\<close>. The slot is filled on the first
  call, before the new value is validated; \<open>fresh\<close> is the value
  \<open>OperatorConfig.from_env()\<close> builds from the process environment.
\<close>

record globals =
  config_slot :: "OperatorConfig option"

definition get_config :: "OperatorConfig \<Rightarrow> globals \<Rightarrow> (exn + OperatorConfig) \<times> globals" where
  "get_config fresh g =
     (case config_slot g of
        Some c \<Rightarrow> (Inr c, g)
      | None \<Rightarrow>
          (let g' = g\<lparr>config_slot := Some fresh\<rparr> in
           case validate fresh of
             Inl e \<Rightarrow> (Inl e, g')
           | Inr _ \<Rightarrow> (Inr fresh, g')))"

definition set_config :: "OperatorConfig \<Rightarrow> globals \<Rightarrow> (exn + unit) \<times> globals" where
  "set_config c g =
     (case validate c of
        Inl e \<Rightarrow> (Inl e, g)
      | Inr _ \<Rightarrow> (Inr (), g\<lparr>config_slot := Some c\<rparr>))"

section \<open>Strings\<close>

text \<open>\<open>sep.join(xs)\<close>.\<close>

fun join :: "string \<Rightarrow> string list \<Rightarrow> string" where
  "join sep [] = []"
| "join sep [x] = x"
| "join sep (x # y # ys) = x @ sep @ join sep (y # ys)"

text \<open>\<open>str(n)\<close> for an integer: decimal digits, a minus sign for a negative one.\<close>

definition digit_char :: "nat \<Rightarrow> char" where
  "digit_char d = char_of (48 + d)"

fun str_nat :: "nat \<Rightarrow> string" where
  "str_nat n = (if n < 10 then [digit_char n] else str_nat (n div 10) @ [digit_char (n mod 10)])"

definition str_int :: "int \<Rightarrow> string" where
  "str_int i = (if i < 0 then CHR ''-'' # str_nat (nat (- i)) else str_nat (nat i))"

declare str_nat.simps [simp del]

section \<open>templates.py\<close>

text \<open>
  A template for \<open>str.format\<close>: literal text and named fields \<open>{host}\<close>,
  \<open>{database}\<close>. \<open>format\<close> writes each field's value in its place; the values are
  not scanned again.
\<close>

datatype seg = Lit string | Fld string

fun format_seg :: "(string \<rightharpoonup> string) \<Rightarrow> seg \<Rightarrow> exn + string" where
  "format_seg kw (Lit s) = Inr s"
| "format_seg kw (Fld f) = (case kw f of None \<Rightarrow> Inl (KeyError f) | Some v \<Rightarrow> Inr v)"

fun format_tmpl :: "(string \<rightharpoonup> string) \<Rightarrow> seg list \<Rightarrow> exn + string" where
  "format_tmpl kw [] = Inr []"
| "format_tmpl kw (s # ss) =
     (case format_seg kw s of
        Inl e \<Rightarrow> Inl e
      | Inr a \<Rightarrow> (case format_tmpl kw ss of Inl e \<Rightarrow> Inl e | Inr b \<Rightarrow> Inr (a @ b)))"

definition postgres_template :: "seg list" where
  "postgres_template =
     [Lit ''pg_dump -h '', Fld ''host'', Lit '' -U $DB_USER -d '', Fld ''database'',
      Lit '' | gzip > /backup/backup-$(date +%Y%m%d-%H%M%S).sql.gz'']"

definition mysql_template :: "seg list" where
  "mysql_template =
     [Lit ''mysqldump -h '', Fld ''host'', Lit '' -u $DB_USER -p$DB_PASSWORD '', Fld ''database'',
      Lit '' | gzip > /backup/backup-$(date +%Y%m%d-%H%M%S).sql.gz'']"

definition mongodb_template :: "seg list" where
  "mongodb_template =
     [Lit ''mongodump --host '', Fld ''host'', Lit '' --db '', Fld ''database'',
      Lit '' --archive=/backup/backup-$(date +%Y%m%d-%H%M%S).archive --gzip'']"

definition get_backup_commands :: "(string \<times> seg list) list" where
  "get_backup_commands =
     [(''postgres'', postgres_template), (''mysql'', mysql_template),
      (''mongodb'', mongodb_template)]"

text \<open>
  \<open>get_upload_command\<close>: the text of the f-string, with its line breaks and
  indentation. The backslash that ends the first command line is a line continuation of
  the Python literal, so the two commands are on one line of the result.
\<close>

definition upload_prefix :: "string \<Rightarrow> string \<Rightarrow> string \<Rightarrow> string" where
  "upload_prefix bucket namespace name = ''s3://'' @ bucket @ ''/'' @ namespace @ ''/'' @ name @ ''/''"

definition get_upload_command :: "string \<Rightarrow> string \<Rightarrow> string \<Rightarrow> int \<Rightarrow> string" where
  "get_upload_command bucket namespace name retention =
     [CHR 0x0A] @ ''        aws s3 cp /backup/*.gz '' @ upload_prefix bucket namespace name
     @ '' && '' @ ''        aws s3 ls '' @ upload_prefix bucket namespace name
     @ '' | sort -r | tail -n +'' @ str_int (retention + 1)
     @ '' | awk '' @ [CHR 0x27] @ ''{print $4}'' @ [CHR 0x27]
     @ '' | xargs -I {} aws s3 rm '' @ upload_prefix bucket namespace name @ ''{}''
     @ [CHR 0x0A] @ ''        ''"










text \<open>\<open>xs.insert(i, x)\<close> for \<open>i \<ge> 0\<close>: past the end it appends.\<close>

definition py_insert :: "nat \<Rightarrow> 'a \<Rightarrow> 'a list \<Rightarrow> 'a list" where
  "py_insert i x xs = take i xs @ [x] @ drop i xs"

definition secret_env :: "string \<Rightarrow> string \<Rightarrow> string \<Rightarrow> json" where
  "secret_env var secret key =
     JDict [(''name'', JStr var),
            (''valueFrom'', JDict [(''secretKeyRef'',
               JDict [(''name'', JStr secret), (''key'', JStr key)])])]"

definition literal_env :: "string \<Rightarrow> string \<Rightarrow> json" where
  "literal_env var v = JDict [(''name'', JStr var), (''value'', JStr v)]"

definition get_container_env :: "string \<Rightarrow> string \<Rightarrow> string \<Rightarrow> string \<Rightarrow> json list" where
  "get_container_env db_type db_creds_secret storage_creds_secret storage_region =
     (let env_vars =
            [secret_env ''DB_USER'' db_creds_secret ''username'',
             secret_env ''AWS_ACCESS_KEY_ID'' storage_creds_secret ''access-key'',
             secret_env ''AWS_SECRET_ACCESS_KEY'' storage_creds_secret ''secret-key'',
             literal_env ''AWS_DEFAULT_REGION'' storage_region]
      in if db_type \<in> set [''postgres'', ''mysql'']
         then py_insert 1 (secret_env ''DB_PASSWORD'' db_creds_secret ''password'') env_vars
         else env_vars)"

text \<open>\<open>d[k]\<close> and \<open>d.get(k, default)\<close> on a section of the spec.\<close>

definition subscript :: "section_dict \<Rightarrow> string \<Rightarrow> exn + string" where
  "subscript d k = (case d k of None \<Rightarrow> Inl (KeyError k) | Some v \<Rightarrow> Inr v)"

definition get_or :: "section_dict \<Rightarrow> string \<Rightarrow> string \<Rightarrow> string" where
  "get_or d k dflt = (case d k of None \<Rightarrow> dflt | Some v \<Rightarrow> v)"

text \<open>
  \<open>cronjob_manifest\<close> for a given configuration value. The statements run in the
  source's order, so the first missing key decides which \<open>KeyError\<close> is raised. The
  default of \<open>storage.get('region', ...)\<close> reads \<open>storage['type']\<close> whether or not a
  region is given.
\<close>

definition manifest_dict ::
  "OperatorConfig \<Rightarrow> string \<Rightarrow> string \<Rightarrow> string \<Rightarrow> string \<Rightarrow> string \<Rightarrow> json list \<Rightarrow> json" where
  "manifest_dict config name namespace schedule img full_command env =
     JDict [
       (''apiVersion'', JStr ''batch/v1''),
       (''kind'', JStr ''CronJob''),
       (''metadata'', JDict [
          (''name'', JStr (name @ ''-backup'')),
          (''namespace'', JStr namespace),
          (''labels'', JDict [
             (''app'', JStr ''database-backup''),
             (''backup-name'', JStr name),
             (''managed-by'', JStr (cfg_name config)),
             (''version'', JStr (cfg_version config))])]),
       (''spec'', JDict [
          (''schedule'', JStr schedule),
          (''successfulJobsHistoryLimit'', JInt (successful_jobs_history_limit (backup config))),
          (''failedJobsHistoryLimit'', JInt (failed_jobs_history_limit (backup config))),
          (''concurrencyPolicy'', JStr ''Forbid''),
          (''jobTemplate'', JDict [
             (''spec'', JDict [
                (''backoffLimit'', JInt 2),
                (''activeDeadlineSeconds'', JInt (backup_timeout_seconds (backup config))),
                (''template'', JDict [
                   (''metadata'', JDict [
                      (''labels'', JDict [
                         (''app'', JStr ''database-backup''),
                         (''backup-name'', JStr name)])]),
                   (''spec'', JDict [
                      (''restartPolicy'', JStr ''OnFailure''),
                      (''containers'', JList [JDict [
                         (''name'', JStr ''backup''),
                         (''image'', JStr img),
                         (''command'', JList [JStr ''/bin/sh'', JStr ''-c'']),
                         (''args'', JList [JStr full_command]),
                         (''env'', JList env),
                         (''volumeMounts'', JList [JDict [
                            (''name'', JStr ''backup-storage''),
                            (''mountPath'', JStr ''/backup'')]]),
                         (''resources'', JDict [
                            (''requests'', JDict [
                               (''memory'', JStr (memory_request (backup config))),
                               (''cpu'', JStr (cpu_request (backup config)))]),
                            (''limits'', JDict [
                               (''memory'', JStr (memory_limit (backup config))),
                               (''cpu'', JStr (cpu_limit (backup config)))])])]]),
                      (''volumes'', JList [JDict [
                         (''name'', JStr ''backup-storage''),
                         (''emptyDir'', JDict [
                            (''sizeLimit'', JStr (temp_storage_size (backup config)))])]])])])])])])]"

definition backup_template :: "string \<Rightarrow> exn + seg list" where
  "backup_template db_type =
     (case map_of get_backup_commands ''postgres'' of
        None \<Rightarrow> Inl (KeyError ''postgres'')
      | Some dflt \<Rightarrow>
          (case map_of get_backup_commands db_type of
             None \<Rightarrow> Inr dflt
           | Some t \<Rightarrow> Inr t))"

definition cronjob_manifest_with ::
  "OperatorConfig \<Rightarrow> string \<Rightarrow> string \<Rightarrow> string \<Rightarrow> section_dict \<Rightarrow> section_dict \<Rightarrow> int
     \<Rightarrow> exn + json" where
  "cronjob_manifest_with config name namespace schedule db st retention =
     and_then (subscript db ''type'') (\<lambda>db_type.
     and_then (subscript db ''host'') (\<lambda>db_host.
     and_then (subscript db ''name'') (\<lambda>db_name.
     let db_creds_secret = get_or db ''credentialsSecret'' (name @ ''-db-creds'') in
     and_then (subscript st ''bucket'') (\<lambda>storage_bucket.
     and_then (subscript st ''type'') (\<lambda>storage_type.
     let storage_region = get_or st ''region'' (get_default_region config storage_type);
         storage_creds_secret = get_or st ''credentialsSecret'' (name @ ''-storage-creds'') in
     and_then (backup_template db_type) (\<lambda>tmpl.
     and_then (format_tmpl [''host'' \<mapsto> db_host, ''database'' \<mapsto> db_name] tmpl) (\<lambda>backup_cmd.
     let upload_cmd = get_upload_command storage_bucket namespace name retention;
         full_command = backup_cmd @ '' && '' @ upload_cmd in
     and_then (get_database_image config db_type) (\<lambda>img.
     Inr (manifest_dict config name namespace schedule img full_command
            (get_container_env db_type db_creds_secret storage_creds_secret
               storage_region))))))))))"

text \<open>\<open>cronjob_manifest\<close> as written: the configuration comes from \<open>get_config\<close>.\<close>

definition cronjob_manifest ::
  "OperatorConfig \<Rightarrow> string \<Rightarrow> string \<Rightarrow> string \<Rightarrow> section_dict \<Rightarrow> section_dict \<Rightarrow> int
     \<Rightarrow> globals \<Rightarrow> (exn + json) \<times> globals" where
  "cronjob_manifest fresh name namespace schedule db st retention g =
     (case get_config fresh g of
        (Inl e, g') \<Rightarrow> (Inl e, g')
      | (Inr config, g') \<Rightarrow>
          (cronjob_manifest_with config name namespace schedule db st retention, g'))"

section \<open>handlers.py\<close>

text \<open>
  The spec of a \<open>DatabaseBackup\<close> resource as the handlers read it: four optional
  entries. The handlers below take the configuration value that \<open>get_config\<close>
  returns once the startup handler has filled the global slot.
\<close>

record spec =
  spec_schedule :: "string option"
  spec_database :: "section_dict option"
  spec_storage :: "section_dict option"
  spec_retention :: "(string \<rightharpoonup> int) option"

text \<open>
  The cluster, as far as the handlers see it. A \<open>datetime\<close> is given by its
  \<open>isoformat()\<close> text; as a Python object it is always truthy.
\<close>

datatype datetime = Datetime string

fun isoformat :: "datetime \<Rightarrow> string" where
  "isoformat (Datetime s) = s"

record V1CronJobStatus =
  last_schedule_time :: "datetime option"
  active :: "string list option"

record V1CronJob =
  status :: V1CronJobStatus

datatype api_call =
    CreateCronJob string json
  | DeleteCronJob string string string
  | ReadCronJob string string

record world =
  adopt :: "json \<Rightarrow> json"
  create_namespaced_cron_job :: "string \<Rightarrow> json \<Rightarrow> ApiException option"
  delete_namespaced_cron_job :: "string \<Rightarrow> string \<Rightarrow> string \<Rightarrow> ApiException option"
  read_namespaced_cron_job :: "string \<Rightarrow> string \<Rightarrow> ApiException + V1CronJob"

text \<open>
  \<open>str(e)\<close> of the cluster client's \<open>ApiException\<close>: the status and the reason in a
  fixed frame, then the response headers and body when they are present and not empty.
  The class is the client library's, not the operator's.
\<close>

definition truthy :: "string option \<Rightarrow> bool" where
  "truthy v \<longleftrightarrow> (case v of None \<Rightarrow> False | Some s \<Rightarrow> s \<noteq> [])"

definition str_ApiException :: "ApiException \<Rightarrow> string" where
  "str_ApiException e =
     ''('' @ status_text e @ '')'' @ [CHR 0x0A] @ ''Reason: '' @ reason_text e @ [CHR 0x0A]
     @ (if truthy (headers_text e)
        then ''HTTP response headers: '' @ the (headers_text e) @ [CHR 0x0A] else [])
     @ (if truthy (body_text e)
        then ''HTTP response body: '' @ the (body_text e) @ [CHR 0x0A] else [])"

text \<open>\<open>_validate_spec\<close>. \<open>not d.get(k)\<close> holds for a missing and for an empty value.\<close>

definition validate_spec :: "OperatorConfig \<Rightarrow> section_dict \<Rightarrow> section_dict \<Rightarrow> exn + unit" where
  "validate_spec config db st =
     and_then (subscript db ''type'') (\<lambda>db_type.
     if \<not> is_database_supported config db_type
     then Inl (PermanentError (''Unsupported database type: '' @ db_type @ ''. ''
                 @ ''Supported types: '' @ join '', '' (db_supported_types (database config))))
     else
     and_then (subscript st ''type'') (\<lambda>storage_type.
     if \<not> is_storage_supported config storage_type
     then Inl (PermanentError (''Unsupported storage type: '' @ storage_type @ ''. ''
                 @ ''Supported types: '' @ join '', '' (st_supported_types (storage config))))
     else if \<not> truthy (db ''host'') then Inl (PermanentError ''Database host is required'')
     else if \<not> truthy (db ''name'') then Inl (PermanentError ''Database name is required'')
     else if \<not> truthy (st ''bucket'') then Inl (PermanentError ''Storage bucket is required'')
     else Inr ()))"

text \<open>
  The statements both the create and the update handler run between reading the spec and
  calling the cluster: defaults, \<open>spec['database']\<close>, \<open>spec['storage']\<close>, validation,
  manifest.
\<close>

definition spec_section :: "string \<Rightarrow> section_dict option \<Rightarrow> exn + section_dict" where
  "spec_section k v = (case v of None \<Rightarrow> Inl (KeyError k) | Some d \<Rightarrow> Inr d)"

definition spec_schedule_or :: "OperatorConfig \<Rightarrow> spec \<Rightarrow> string" where
  "spec_schedule_or config sp =
     (case spec_schedule sp of None \<Rightarrow> default_schedule (backup config) | Some s \<Rightarrow> s)"

definition spec_keep_last :: "OperatorConfig \<Rightarrow> spec \<Rightarrow> int" where
  "spec_keep_last config sp =
     (case spec_retention sp of
        None \<Rightarrow> default_retention_days (backup config)
      | Some r \<Rightarrow>
          (case r ''keepLast'' of
             None \<Rightarrow> default_retention_days (backup config)
           | Some k \<Rightarrow> k))"

definition validated_manifest :: "OperatorConfig \<Rightarrow> spec \<Rightarrow> string \<Rightarrow> string \<Rightarrow> exn + json" where
  "validated_manifest config sp name namespace =
     (let schedule = spec_schedule_or config sp in
      and_then (spec_section ''database'' (spec_database sp)) (\<lambda>db.
      and_then (spec_section ''storage'' (spec_storage sp)) (\<lambda>st.
      let retention = spec_keep_last config sp in
      and_then (validate_spec config db st) (\<lambda>_.
      cronjob_manifest_with config name namespace schedule db st retention))))"

text \<open>
  \<open>create_backup_job\<close>: the result or the exception raised, and the calls made to the
  cluster. Only the \<open>create\<close> call is inside the \<open>try\<close>.
\<close>

definition create_backup_job ::
  "OperatorConfig \<Rightarrow> world \<Rightarrow> spec \<Rightarrow> string \<Rightarrow> string \<Rightarrow> (exn + json) \<times> api_call list" where
  "create_backup_job config w sp name namespace =
     (case validated_manifest config sp name namespace of
        Inl e \<Rightarrow> (Inl e, [])
      | Inr cronjob \<Rightarrow>
          (let body = adopt w cronjob;
               calls = [CreateCronJob namespace body] in
           case create_namespaced_cron_job w namespace body of
             None \<Rightarrow>
               (Inr (JDict [
                  (''message'', JStr (''Backup CronJob created with schedule: ''
                                       @ spec_schedule_or config sp)),
                  (''cronjob'', JStr (name @ ''-backup'')),
                  (''retention'', JInt (spec_keep_last config sp))]), calls)
           | Some e \<Rightarrow>
               (Inl (PermanentError (''Cannot create CronJob: '' @ str_ApiException e)), calls)))"

text \<open>
  \<open>update_backup_job\<close>: the whole body is inside the \<open>try\<close>, whose \<open>except\<close> clause
  catches \<open>ApiException\<close> only; any other exception leaves the handler as it is.
\<close>

definition update_backup_job ::
  "OperatorConfig \<Rightarrow> world \<Rightarrow> spec \<Rightarrow> string \<Rightarrow> string \<Rightarrow> (exn + json) \<times> api_call list" where
  "update_backup_job config w sp name namespace =
     (let del = DeleteCronJob (name @ ''-backup'') namespace ''Foreground'' in
      case delete_namespaced_cron_job w (name @ ''-backup'') namespace ''Foreground'' of
        Some e \<Rightarrow>
          (Inl (TemporaryError (''Cannot update CronJob: '' @ str_ApiException e) 30), [del])
      | None \<Rightarrow>
          (case validated_manifest config sp name namespace of
             Inl e \<Rightarrow> (Inl e, [del])
           | Inr cronjob \<Rightarrow>
               (let body = adopt w cronjob;
                    calls = [del, CreateCronJob namespace body] in
                case create_namespaced_cron_job w namespace body of
                  None \<Rightarrow>
                    (Inr (JDict [(''message'', JStr ''Backup job updated successfully'')]), calls)
                | Some e \<Rightarrow>
                    (Inl (TemporaryError (''Cannot update CronJob: '' @ str_ApiException e) 30),
                     calls))))"

definition delete_backup_job :: "string \<Rightarrow> string \<Rightarrow> (exn + json) \<times> api_call list" where
  "delete_backup_job name namespace =
     (Inr (JDict [(''message'', JStr (''Backup job '' @ name @ '' deleted''))]), [])"

text \<open>
  \<open>check_backup_status\<close>: \<open>patch.status\<close> is a dictionary the handler writes into; the
  framework merges it into the resource's status afterwards, key by key.
\<close>

type_synonym status_dict = "string \<rightharpoonup> json"

definition active_count :: "string list option \<Rightarrow> int" where
  "active_count a = (case a of None \<Rightarrow> 0 | Some xs \<Rightarrow> (if xs = [] then 0 else int (length xs)))"

definition check_backup_status ::
  "world \<Rightarrow> string \<Rightarrow> string \<Rightarrow> status_dict \<Rightarrow> (exn + unit) \<times> status_dict \<times> api_call list" where
  "check_backup_status w name namespace patch =
     (let calls = [ReadCronJob (name @ ''-backup'') namespace] in
      case read_namespaced_cron_job w (name @ ''-backup'') namespace of
        Inr cronjob \<Rightarrow>
          (let p1 = (case last_schedule_time (status cronjob) of
                       Some t \<Rightarrow> (patch(''lastBackup'' \<mapsto> JStr (isoformat t)))
                                   (''phase'' \<mapsto> JStr ''Active'')
                     | None \<Rightarrow> patch(''phase'' \<mapsto> JStr ''Pending''));
               p2 = p1(''activeJobs'' \<mapsto> JInt (active_count (active (status cronjob))))
           in (Inr (), p2, calls))
      | Inl e \<Rightarrow>
          (Inr (),
           (patch(''phase'' \<mapsto> JStr ''Error''))(''error'' \<mapsto> JStr (str_ApiException e)),
           calls))"

text \<open>The merge of a patch into the stored status.\<close>

definition apply_patch :: "status_dict \<Rightarrow> status_dict \<Rightarrow> status_dict" where
  "apply_patch stored patch = stored ++ patch"

section \<open>Sample inputs\<close>


text \<open>Observers of a manifest and of an environment entry, for stating properties.\<close>

definition env_name :: "json \<Rightarrow> string option" where
  "env_name e = (case jget ''name'' e of Some (JStr n) \<Rightarrow> Some n | _ \<Rightarrow> None)"

definition first_container :: "json \<Rightarrow> json option" where
  "first_container m =
     (case jpath [''spec'', ''jobTemplate'', ''spec'', ''template'', ''spec'', ''containers''] m of
        None \<Rightarrow> None
      | Some cs \<Rightarrow> jnth 0 cs)"

definition container_field :: "string \<Rightarrow> json \<Rightarrow> json option" where
  "container_field k m = (case first_container m of None \<Rightarrow> None | Some c \<Rightarrow> jget k c)"

text \<open>Concrete values used to exercise the statements below.\<close>

definition config0 :: OperatorConfig where
  "config0 = OperatorConfig_default ''INFO'' False False"

definition db_orders :: section_dict where
  "db_orders = [''type'' \<mapsto> ''postgres'', ''host'' \<mapsto> ''db.internal'', ''name'' \<mapsto> ''orders'']"

definition db_oracle :: section_dict where
  "db_oracle = [''type'' \<mapsto> ''oracle'', ''host'' \<mapsto> ''db.internal'', ''name'' \<mapsto> ''orders'']"

definition db_mongo :: section_dict where
  "db_mongo = [''type'' \<mapsto> ''mongodb'', ''host'' \<mapsto> ''db.internal'', ''name'' \<mapsto> ''orders'']"

definition db_no_host :: section_dict where
  "db_no_host = [''type'' \<mapsto> ''postgres'', ''name'' \<mapsto> ''orders'']"


definition st_backups :: section_dict where
  "st_backups = [''type'' \<mapsto> ''s3'', ''bucket'' \<mapsto> ''backups'']"


definition spec_orders :: spec where
  "spec_orders =
     \<lparr> spec_schedule = Some ''0 3 * * *'',
       spec_database = Some db_orders,
       spec_storage = Some st_backups,
       spec_retention = Some [''keepLast'' \<mapsto> 5] \<rparr>"

definition api_ok :: world where
  "api_ok =
     \<lparr> adopt = (\<lambda>m. m),
       create_namespaced_cron_job = (\<lambda>ns body. None),
       delete_namespaced_cron_job = (\<lambda>n ns policy. None),
       read_namespaced_cron_job =
         (\<lambda>n ns. Inr \<lparr> status = \<lparr> last_schedule_time = None, active = None \<rparr> \<rparr>) \<rparr>"

text \<open>The backup command of an engine type, written out.\<close>

definition backup_cmd_text :: "string \<Rightarrow> string \<Rightarrow> string \<Rightarrow> string" where
  "backup_cmd_text t h n =
     (if t = ''mysql''
      then ''mysqldump -h '' @ h @ '' -u $DB_USER -p$DB_PASSWORD '' @ n
           @ '' | gzip > /backup/backup-$(date +%Y%m%d-%H%M%S).sql.gz''
      else if t = ''mongodb''
      then ''mongodump --host '' @ h @ '' --db '' @ n
           @ '' --archive=/backup/backup-$(date +%Y%m%d-%H%M%S).archive --gzip''
      else ''pg_dump -h '' @ h @ '' -U $DB_USER -d '' @ n
           @ '' | gzip > /backup/backup-$(date +%Y%m%d-%H%M%S).sql.gz'')"

text \<open>The status patch a tick of the periodic check leaves behind.\<close>

definition status_patch_of :: "world \<Rightarrow> string \<Rightarrow> string \<Rightarrow> status_dict \<Rightarrow> status_dict" where
  "status_patch_of w name namespace patch = fst (snd (check_backup_status w name namespace patch))"

fun is_api_error :: "exn \<Rightarrow> bool" where
  "is_api_error (ApiError e) = True"
| "is_api_error _ = False"

definition not_found :: ApiException where
  "not_found = \<lparr> status_text = ''404'', reason_text = ''Not Found'',
                 headers_text = None, body_text = None \<rparr>"

definition conflict :: ApiException where
  "conflict = \<lparr> status_text = ''409'', reason_text = ''Conflict'',
                headers_text = None, body_text = Some ''already exists'' \<rparr>"

definition api_create_fails :: world where
  "api_create_fails = api_ok \<lparr> create_namespaced_cron_job := (\<lambda>ns body. Some conflict) \<rparr>"

definition api_delete_fails :: world where
  "api_delete_fails = api_ok \<lparr> delete_namespaced_cron_job := (\<lambda>n ns policy. Some not_found) \<rparr>"

definition api_read_fails :: world where
  "api_read_fails = api_ok \<lparr> read_namespaced_cron_job := (\<lambda>n ns. Inl not_found) \<rparr>"

definition api_active :: world where
  "api_active = api_ok \<lparr> read_namespaced_cron_job :=
     (\<lambda>n ns. Inr \<lparr> status = \<lparr> last_schedule_time = Some (Datetime ''2024-01-02T03:00:00+00:00''),
                               active = Some [''orders-db-backup-1'', ''orders-db-backup-2''] \<rparr> \<rparr>) \<rparr>"

definition no_patch :: status_dict where
  "no_patch = Map.empty"

definition stored_active :: status_dict where
  "stored_active = [''phase'' \<mapsto> JStr ''Active'',
                    ''lastBackup'' \<mapsto> JStr ''2024-01-01T03:00:00+00:00'',
                    ''activeJobs'' \<mapsto> JInt 1]"

definition spec_oracle :: spec where
  "spec_oracle = spec_orders \<lparr> spec_database := Some db_oracle \<rparr>"

definition spec_no_host :: spec where
  "spec_no_host = spec_orders \<lparr> spec_database := Some db_no_host \<rparr>"

definition config_bad :: OperatorConfig where
  "config_bad = config0 \<lparr> backup := BackupConfig_default \<lparr> default_retention_days := 0 \<rparr> \<rparr>"

definition globals_empty :: globals where
  "globals_empty = \<lparr> config_slot = None \<rparr>"


section \<open>The retention cleanup\<close>











section \<open>The container environment\<close>

text \<open>
  C3. The environment list holds the secret reference \<open>DB_PASSWORD\<close> exactly when the
  engine type is \<open>postgres\<close> or \<open>mysql\<close>; for \<open>mongodb\<close> no entry has that name. For
  every engine type the list holds the references \<open>DB_USER\<close>, \<open>AWS_ACCESS_KEY_ID\<close> and
  \<open>AWS_SECRET_ACCESS_KEY\<close> and the literal \<open>AWS_DEFAULT_REGION\<close>.
\<close>

theorem container_env_credentials:
  "(secret_env ''DB_PASSWORD'' db_secret ''password''
       \<in> set (get_container_env db_type db_secret st_secret region))
     = (db_type = ''postgres'' \<or> db_type = ''mysql'')
   \<and> (Some ''DB_PASSWORD'' \<in> env_name ` set (get_container_env db_type db_secret st_secret region))
     = (db_type = ''postgres'' \<or> db_type = ''mysql'')
   \<and> Some ''DB_PASSWORD'' \<notin> env_name ` set (get_container_env ''mongodb'' db_secret st_secret region)
   \<and> map env_name (get_container_env db_type db_secret st_secret region)
     = (if db_type = ''postgres'' \<or> db_type = ''mysql''
        then [Some ''DB_USER'', Some ''DB_PASSWORD'', Some ''AWS_ACCESS_KEY_ID'',
              Some ''AWS_SECRET_ACCESS_KEY'', Some ''AWS_DEFAULT_REGION'']
        else [Some ''DB_USER'', Some ''AWS_ACCESS_KEY_ID'',
              Some ''AWS_SECRET_ACCESS_KEY'', Some ''AWS_DEFAULT_REGION''])
   \<and> secret_env ''DB_USER'' db_secret ''username''
       \<in> set (get_container_env db_type db_secret st_secret region)
   \<and> secret_env ''AWS_ACCESS_KEY_ID'' st_secret ''access-key''
       \<in> set (get_container_env db_type db_secret st_secret region)
   \<and> secret_env ''AWS_SECRET_ACCESS_KEY'' st_secret ''secret-key''
       \<in> set (get_container_env db_type db_secret st_secret region)
   \<and> literal_env ''AWS_DEFAULT_REGION'' region
       \<in> set (get_container_env db_type db_secret st_secret region)"
  by (simp add: get_container_env_def py_insert_def secret_env_def literal_env_def env_name_def)

section \<open>Validation of a spec\<close>

lemma join_db_default: "join '', '' (db_supported_types DatabaseConfig_default) = ''postgres, mysql, mongodb''"
  by (simp add: DatabaseConfig_default_def)

lemma join_st_default: "join '', '' (st_supported_types StorageConfig_default) = ''s3, gcs, azure''"
  by (simp add: StorageConfig_default_def)


lemma config0_tables:
  "database config0 = DatabaseConfig_default" "storage config0 = StorageConfig_default"
  by (simp_all add: config0_def OperatorConfig_default_def)



section \<open>The manifest\<close>

lemma cronjob_manifest_with_Inr:
  assumes "cronjob_manifest_with config name namespace schedule db st retention = Inr m"
  shows "\<exists>img cmd env. m = manifest_dict config name namespace schedule img cmd env"
  using assms unfolding cronjob_manifest_with_def and_then_def Let_def
  by (auto split: sum.splits)

lemma validated_manifest_Inr:
  assumes "validated_manifest config sp name namespace = Inr m"
  shows "\<exists>db st. spec_database sp = Some db \<and> spec_storage sp = Some st
           \<and> validate_spec config db st = Inr ()
           \<and> cronjob_manifest_with config name namespace (spec_schedule_or config sp) db st
                (spec_keep_last config sp) = Inr m"
  using assms unfolding validated_manifest_def and_then_def Let_def spec_section_def
  by (auto split: sum.splits option.splits)

lemma manifest_dict_name:
  "jpath [''metadata'', ''name''] (manifest_dict config name namespace schedule img cmd env)
     = Some (JStr (name @ ''-backup''))"
  "jpath [''metadata'', ''namespace''] (manifest_dict config name namespace schedule img cmd env)
     = Some (JStr namespace)"
  by (simp_all add: manifest_dict_def)

text \<open>
  C7. Whenever the manifest builder returns a manifest for the resource name \<open>X\<close> and the
  namespace \<open>ns\<close>, its \<open>metadata.name\<close> is \<open>X-backup\<close> and its \<open>metadata.namespace\<close> is
  \<open>ns\<close>. When the create handler gets as far as the cluster, its one call creates that
  manifest (after adoption) in \<open>ns\<close>, and the name it reports is \<open>X-backup\<close>.
\<close>

theorem scheduled_job_naming:
  "(\<forall>m. cronjob_manifest_with config name namespace schedule db st retention = Inr m \<longrightarrow>
        jpath [''metadata'', ''name''] m = Some (JStr (name @ ''-backup''))
      \<and> jpath [''metadata'', ''namespace''] m = Some (JStr namespace))
   \<and> (\<forall>m. validated_manifest config sp name namespace = Inr m \<longrightarrow>
        jpath [''metadata'', ''name''] m = Some (JStr (name @ ''-backup''))
      \<and> jpath [''metadata'', ''namespace''] m = Some (JStr namespace)
      \<and> snd (create_backup_job config w sp name namespace)
          = [CreateCronJob namespace (adopt w m)]
      \<and> (create_namespaced_cron_job w namespace (adopt w m) = None \<longrightarrow>
          (case fst (create_backup_job config w sp name namespace) of
             Inr payload \<Rightarrow> jget ''cronjob'' payload = Some (JStr (name @ ''-backup''))
           | Inl e \<Rightarrow> False)))"
proof (intro conjI allI impI)
  fix m
  assume "cronjob_manifest_with config name namespace schedule db st retention = Inr m"
  then obtain img cmd env where "m = manifest_dict config name namespace schedule img cmd env"
    using cronjob_manifest_with_Inr by blast
  then show "jpath [''metadata'', ''name''] m = Some (JStr (name @ ''-backup''))"
    and "jpath [''metadata'', ''namespace''] m = Some (JStr namespace)"
    by (simp_all only: manifest_dict_name)
next
  fix m
  assume v: "validated_manifest config sp name namespace = Inr m"
  then obtain db st where
    "cronjob_manifest_with config name namespace (spec_schedule_or config sp) db st
       (spec_keep_last config sp) = Inr m"
    using validated_manifest_Inr by blast
  then obtain img cmd env where
    "m = manifest_dict config name namespace (spec_schedule_or config sp) img cmd env"
    using cronjob_manifest_with_Inr by blast
  then show "jpath [''metadata'', ''name''] m = Some (JStr (name @ ''-backup''))"
    and "jpath [''metadata'', ''namespace''] m = Some (JStr namespace)"
    by (simp_all only: manifest_dict_name)
  show "snd (create_backup_job config w sp name namespace)
          = [CreateCronJob namespace (adopt w m)]"
    using v by (simp add: create_backup_job_def Let_def split: option.splits)
  assume "create_namespaced_cron_job w namespace (adopt w m) = None"
  then show "case fst (create_backup_job config w sp name namespace) of
             Inr payload \<Rightarrow> jget ''cronjob'' payload = Some (JStr (name @ ''-backup''))
           | Inl e \<Rightarrow> False"
    using v by (simp add: create_backup_job_def Let_def)
qed

lemma format_backup_template:
  "and_then (backup_template t) (format_tmpl [''host'' \<mapsto> h, ''database'' \<mapsto> n])
     = Inr (backup_cmd_text t h n)"
  by (simp add: backup_template_def get_backup_commands_def and_then_def backup_cmd_text_def
        postgres_template_def mysql_template_def mongodb_template_def)

lemma cronjob_manifest_with_complete:
  assumes "db ''type'' = Some t" "db ''host'' = Some h" "db ''name'' = Some n"
    and "st ''bucket'' = Some b" "st ''type'' = Some s"
    and "get_database_image config t = Inr img"
  shows "cronjob_manifest_with config name namespace schedule db st retention =
           Inr (manifest_dict config name namespace schedule img
                  (backup_cmd_text t h n @ '' && '' @ get_upload_command b namespace name retention)
                  (get_container_env t (get_or db ''credentialsSecret'' (name @ ''-db-creds''))
                     (get_or st ''credentialsSecret'' (name @ ''-storage-creds''))
                     (get_or st ''region'' (get_default_region config s))))"
proof -
  from format_backup_template [of t h n]
  obtain tmpl where t1: "backup_template t = Inr tmpl"
    and t2: "format_tmpl [''host'' \<mapsto> h, ''database'' \<mapsto> n] tmpl = Inr (backup_cmd_text t h n)"
    by (cases "backup_template t") (simp_all add: and_then_def)
  show ?thesis
    unfolding cronjob_manifest_with_def
    by (simp add: assms t1 t2 and_then_def subscript_def Let_def)
qed

lemma default_image:
  assumes "images (database config) = images DatabaseConfig_default"
  shows "get_database_image config t =
           Inr (if t = ''postgres'' then ''postgres:15-alpine''
                else if t = ''mysql'' then ''mysql:8.0''
                else if t = ''mongodb'' then ''mongo:7.0''
                else ''postgres:15-alpine'')"
  by (simp add: get_database_image_def assms DatabaseConfig_default_def)

lemma container_field_manifest:
  "container_field ''image'' (manifest_dict config name namespace schedule img cmd env)
     = Some (JStr img)"
  "container_field ''args'' (manifest_dict config name namespace schedule img cmd env)
     = Some (JList [JStr cmd])"
  "container_field ''env'' (manifest_dict config name namespace schedule img cmd env)
     = Some (JList env)"
  by (simp_all add: container_field_def first_container_def manifest_dict_def)

lemma validated_orders:
  "\<exists>m. validated_manifest config0 spec_orders ''orders-db'' ''prod'' = Inr m"
proof -
  have v: "validate_spec config0 db_orders st_backups = Inr ()"
    by (simp add: validate_spec_def and_then_def subscript_def is_database_supported_def
          is_storage_supported_def truthy_def config0_tables DatabaseConfig_default_def
          StorageConfig_default_def db_orders_def st_backups_def)
  have i: "get_database_image config0 ''postgres'' = Inr ''postgres:15-alpine''"
    using default_image [of config0 "''postgres''"] by (simp add: config0_tables)
  have "\<exists>m. cronjob_manifest_with config0 ''orders-db'' ''prod'' (spec_schedule_or config0 spec_orders)
          db_orders st_backups (spec_keep_last config0 spec_orders) = Inr m"
    using cronjob_manifest_with_complete [of db_orders "''postgres''" "''db.internal''" "''orders''"
        st_backups "''backups''" "''s3''" config0 "''postgres:15-alpine''", OF _ _ _ _ _ i]
    by (simp add: db_orders_def st_backups_def)
  then show ?thesis
    by (simp add: validated_manifest_def spec_orders_def spec_section_def and_then_def v Let_def)
qed

theorem scheduled_job_naming_witness:
  "\<exists>m. validated_manifest config0 spec_orders ''orders-db'' ''prod'' = Inr m
      \<and> jpath [''metadata'', ''name''] m = Some (JStr ''orders-db-backup'')
      \<and> jpath [''metadata'', ''namespace''] m = Some (JStr ''prod'')
      \<and> snd (create_backup_job config0 api_ok spec_orders ''orders-db'' ''prod'')
          = [CreateCronJob ''prod'' m]"
proof -
  obtain m where v: "validated_manifest config0 spec_orders ''orders-db'' ''prod'' = Inr m"
    using validated_orders by blast
  have "adopt api_ok m = m" by (simp add: api_ok_def)
  with v scheduled_job_naming [of config0 "''orders-db''" "''prod''" "''0 3 * * *''" db_orders
      st_backups 5 spec_orders api_ok]
  show ?thesis by auto
qed

text \<open>
  C8. With the default image table and an input that has the entries the builder reads,
  the builder returns a manifest for every engine type. Its container uses the image and
  the backup command of \<open>postgres\<close>, \<open>mysql\<close> or \<open>mongodb\<close> when the engine type is one
  of these, and the image and the backup command of \<open>postgres\<close> for every other engine
  type.
\<close>

theorem engine_fallback:
  assumes "images (database config) = images DatabaseConfig_default"
    and "db ''type'' = Some t" "db ''host'' = Some h" "db ''name'' = Some n"
    and "st ''bucket'' = Some b" "st ''type'' = Some s"
  shows "\<exists>m. cronjob_manifest_with config name namespace schedule db st retention = Inr m
     \<and> container_field ''image'' m =
         Some (JStr (if t = ''postgres'' then ''postgres:15-alpine''
                     else if t = ''mysql'' then ''mysql:8.0''
                     else if t = ''mongodb'' then ''mongo:7.0''
                     else ''postgres:15-alpine''))
     \<and> container_field ''args'' m =
         Some (JList [JStr (
           (if t = ''postgres''
            then ''pg_dump -h '' @ h @ '' -U $DB_USER -d '' @ n
                 @ '' | gzip > /backup/backup-$(date +%Y%m%d-%H%M%S).sql.gz''
            else if t = ''mysql''
            then ''mysqldump -h '' @ h @ '' -u $DB_USER -p$DB_PASSWORD '' @ n
                 @ '' | gzip > /backup/backup-$(date +%Y%m%d-%H%M%S).sql.gz''
            else if t = ''mongodb''
            then ''mongodump --host '' @ h @ '' --db '' @ n
                 @ '' --archive=/backup/backup-$(date +%Y%m%d-%H%M%S).archive --gzip''
            else ''pg_dump -h '' @ h @ '' -U $DB_USER -d '' @ n
                 @ '' | gzip > /backup/backup-$(date +%Y%m%d-%H%M%S).sql.gz'')
           @ '' && '' @ get_upload_command b namespace name retention)])"
proof -
  let ?img = "if t = ''postgres'' then ''postgres:15-alpine''
              else if t = ''mysql'' then ''mysql:8.0''
              else if t = ''mongodb'' then ''mongo:7.0''
              else ''postgres:15-alpine''"
  have i: "get_database_image config t = Inr ?img"
    using assms(1) by (rule default_image)
  note m = cronjob_manifest_with_complete [OF assms(2-6) i, of name namespace schedule retention]
  show ?thesis
    unfolding m by (simp add: container_field_manifest backup_cmd_text_def)
qed

theorem engine_fallback_witness:
  "\<exists>m. cronjob_manifest_with config0 ''orders-db'' ''prod'' ''0 3 * * *'' db_oracle st_backups 5 = Inr m
     \<and> container_field ''image'' m = Some (JStr ''postgres:15-alpine'')
     \<and> container_field ''args'' m =
         Some (JList [JStr (''pg_dump -h db.internal -U $DB_USER -d orders''
            @ '' | gzip > /backup/backup-$(date +%Y%m%d-%H%M%S).sql.gz''
            @ '' && '' @ get_upload_command ''backups'' ''prod'' ''orders-db'' 5)])"
  using engine_fallback [of config0 db_oracle "''oracle''" "''db.internal''" "''orders''"
      st_backups "''backups''" "''s3''" "''orders-db''" "''prod''" "''0 3 * * *''" 5]
  by (simp add: config0_tables db_oracle_def st_backups_def)

section \<open>The builder and the global configuration\<close>





text \<open>
  Outside that hypothesis: when nothing is installed and the value built from the
  environment is not valid, the first call raises and the second returns a manifest,
  because \<open>get_config\<close> fills the slot before it validates.
\<close>

lemma cronjob_manifest_unvalidated_slot:
  "fst (cronjob_manifest config_bad ''orders-db'' ''prod'' ''0 3 * * *'' db_orders st_backups 5
          globals_empty) = Inl (ValueError ''Retention days must be at least 1'')
   \<and> fst (cronjob_manifest config_bad ''orders-db'' ''prod'' ''0 3 * * *'' db_orders st_backups 5
          (snd (cronjob_manifest config_bad ''orders-db'' ''prod'' ''0 3 * * *'' db_orders
                  st_backups 5 globals_empty)))
       = cronjob_manifest_with config_bad ''orders-db'' ''prod'' ''0 3 * * *'' db_orders st_backups 5"
  by (simp add: cronjob_manifest_def get_config_def validate_def config_bad_def config0_def
        OperatorConfig_default_def BackupConfig_default_def globals_empty_def Let_def)

section \<open>The handlers\<close>

text \<open>
  C9. In the update handler the old job is deleted before the new spec is validated. For
  every update whose delete call succeeds and whose spec fails validation with a
  permanent error, the handler ends with that same permanent error, and the only call it
  has made to the cluster is the delete: nothing is created in place of the deleted job.
\<close>

theorem update_deletes_before_validating:
  assumes "delete_namespaced_cron_job w (name @ ''-backup'') namespace ''Foreground'' = None"
    and "spec_database sp = Some db" and "spec_storage sp = Some st"
    and "validate_spec config db st = Inl (PermanentError msg)"
  shows "update_backup_job config w sp name namespace
           = (Inl (PermanentError msg),
              [DeleteCronJob (name @ ''-backup'') namespace ''Foreground''])"
proof -
  have "validated_manifest config sp name namespace = Inl (PermanentError msg)"
    using assms(2-4) by (simp add: validated_manifest_def spec_section_def and_then_def Let_def)
  then show ?thesis
    using assms(1) by (simp add: update_backup_job_def Let_def)
qed

theorem update_deletes_before_validating_witness:
  "update_backup_job config0 api_ok spec_oracle ''orders-db'' ''prod''
     = (Inl (PermanentError
          ''Unsupported database type: oracle. Supported types: postgres, mysql, mongodb''),
        [DeleteCronJob ''orders-db-backup'' ''prod'' ''Foreground''])
   \<and> update_backup_job config0 api_ok spec_no_host ''orders-db'' ''prod''
     = (Inl (PermanentError ''Database host is required''),
        [DeleteCronJob ''orders-db-backup'' ''prod'' ''Foreground''])"
proof -
  have a: "validate_spec config0 db_oracle st_backups = Inl (PermanentError
          ''Unsupported database type: oracle. Supported types: postgres, mysql, mongodb'')"
    and b: "validate_spec config0 db_no_host st_backups
          = Inl (PermanentError ''Database host is required'')"
    by (simp_all add: validate_spec_def and_then_def subscript_def is_database_supported_def
          is_storage_supported_def truthy_def config0_tables DatabaseConfig_default_def
          StorageConfig_default_def db_oracle_def db_no_host_def st_backups_def)
  have d: "delete_namespaced_cron_job api_ok (''orders-db'' @ ''-backup'') ''prod'' ''Foreground'' = None"
    by (simp add: api_ok_def)
  have s1: "spec_database spec_oracle = Some db_oracle" "spec_storage spec_oracle = Some st_backups"
    and s2: "spec_database spec_no_host = Some db_no_host" "spec_storage spec_no_host = Some st_backups"
    by (simp_all add: spec_oracle_def spec_no_host_def spec_orders_def)
  from update_deletes_before_validating [OF d s1 a] update_deletes_before_validating [OF d s2 b]
  show ?thesis by simp
qed

lemma subscript_not_api: "subscript d k = Inl e \<Longrightarrow> \<not> is_api_error e"
  by (auto simp: subscript_def split: option.splits)

lemma spec_section_not_api: "spec_section k v = Inl e \<Longrightarrow> \<not> is_api_error e"
  by (auto simp: spec_section_def split: option.splits)

lemma image_not_api: "get_database_image config t = Inl e \<Longrightarrow> \<not> is_api_error e"
  by (auto simp: get_database_image_def split: option.splits)

lemma validate_spec_not_api: "validate_spec config db st = Inl e \<Longrightarrow> \<not> is_api_error e"
  by (auto simp: validate_spec_def and_then_def subscript_def split: option.splits if_splits)

lemma cronjob_manifest_with_not_api:
  assumes "cronjob_manifest_with config name namespace schedule db st retention = Inl e"
  shows "\<not> is_api_error e"
proof (cases "db ''type''")
  case None
  with assms show ?thesis
    by (auto simp: cronjob_manifest_with_def and_then_def subscript_def)
next
  case t: (Some t)
  show ?thesis
  proof (cases "db ''host''")
    case None
    with assms t show ?thesis
      by (auto simp: cronjob_manifest_with_def and_then_def subscript_def)
  next
    case h: (Some h)
    show ?thesis
    proof (cases "db ''name''")
      case None
      with assms t h show ?thesis
        by (auto simp: cronjob_manifest_with_def and_then_def subscript_def)
    next
      case n: (Some n)
      show ?thesis
      proof (cases "st ''bucket''")
        case None
        with assms t h n show ?thesis
          by (auto simp: cronjob_manifest_with_def and_then_def subscript_def Let_def)
      next
        case b: (Some b)
        show ?thesis
        proof (cases "st ''type''")
          case None
          with assms t h n b show ?thesis
            by (auto simp: cronjob_manifest_with_def and_then_def subscript_def Let_def)
        next
          case s: (Some s)
          show ?thesis
          proof (cases "get_database_image config t")
            case (Inl e')
            have f: "and_then (backup_template t)
                       (format_tmpl [''host'' \<mapsto> h, ''database'' \<mapsto> n]) = Inr (backup_cmd_text t h n)"
              by (rule format_backup_template)
            then obtain tmpl where t1: "backup_template t = Inr tmpl"
              and t2: "format_tmpl [''host'' \<mapsto> h, ''database'' \<mapsto> n] tmpl
                         = Inr (backup_cmd_text t h n)"
              by (cases "backup_template t") (simp_all add: and_then_def)
            have "cronjob_manifest_with config name namespace schedule db st retention = Inl e'"
              unfolding cronjob_manifest_with_def
              by (simp add: t h n b s t1 t2 Inl and_then_def subscript_def Let_def)
            with assms have "e = e'" by simp
            with Inl show ?thesis by (simp add: image_not_api)
          next
            case (Inr img)
            from cronjob_manifest_with_complete [OF t h n b s Inr, of name namespace schedule retention]
            show ?thesis using assms by simp
          qed
        qed
      qed
    qed
  qed
qed

lemma validated_manifest_not_api:
  assumes "validated_manifest config sp name namespace = Inl e"
  shows "\<not> is_api_error e"
  using assms unfolding validated_manifest_def Let_def and_then_def
  by (auto split: sum.splits
        dest: spec_section_not_api validate_spec_not_api cronjob_manifest_with_not_api)

text \<open>
  C6. A failure of the cluster call in the create handler ends the handler with a
  permanent error. A failure of either cluster call in the update handler, the delete or
  the create, ends the handler with a temporary error whose delay is 30 seconds. Neither
  handler ever ends with the cluster client's own exception.
\<close>

theorem api_failure_classification:
  "(\<forall>m e. validated_manifest config sp name namespace = Inr m \<longrightarrow>
          create_namespaced_cron_job w namespace (adopt w m) = Some e \<longrightarrow>
          fst (create_backup_job config w sp name namespace)
            = Inl (PermanentError (''Cannot create CronJob: '' @ str_ApiException e)))
   \<and> (\<forall>e. delete_namespaced_cron_job w (name @ ''-backup'') namespace ''Foreground'' = Some e \<longrightarrow>
          fst (update_backup_job config w sp name namespace)
            = Inl (TemporaryError (''Cannot update CronJob: '' @ str_ApiException e) 30))
   \<and> (\<forall>m e. delete_namespaced_cron_job w (name @ ''-backup'') namespace ''Foreground'' = None \<longrightarrow>
          validated_manifest config sp name namespace = Inr m \<longrightarrow>
          create_namespaced_cron_job w namespace (adopt w m) = Some e \<longrightarrow>
          fst (update_backup_job config w sp name namespace)
            = Inl (TemporaryError (''Cannot update CronJob: '' @ str_ApiException e) 30))
   \<and> (\<forall>e. fst (create_backup_job config w sp name namespace) = Inl e \<longrightarrow> \<not> is_api_error e)
   \<and> (\<forall>e. fst (update_backup_job config w sp name namespace) = Inl e \<longrightarrow> \<not> is_api_error e)"
proof (intro conjI allI impI)
  fix m e
  assume "validated_manifest config sp name namespace = Inr m"
    and "create_namespaced_cron_job w namespace (adopt w m) = Some e"
  then show "fst (create_backup_job config w sp name namespace)
            = Inl (PermanentError (''Cannot create CronJob: '' @ str_ApiException e))"
    by (simp add: create_backup_job_def Let_def)
next
  fix e
  assume "delete_namespaced_cron_job w (name @ ''-backup'') namespace ''Foreground'' = Some e"
  then show "fst (update_backup_job config w sp name namespace)
            = Inl (TemporaryError (''Cannot update CronJob: '' @ str_ApiException e) 30)"
    by (simp add: update_backup_job_def Let_def)
next
  fix m e
  assume "delete_namespaced_cron_job w (name @ ''-backup'') namespace ''Foreground'' = None"
    and "validated_manifest config sp name namespace = Inr m"
    and "create_namespaced_cron_job w namespace (adopt w m) = Some e"
  then show "fst (update_backup_job config w sp name namespace)
            = Inl (TemporaryError (''Cannot update CronJob: '' @ str_ApiException e) 30)"
    by (simp add: update_backup_job_def Let_def)
next
  fix e
  assume "fst (create_backup_job config w sp name namespace) = Inl e"
  then show "\<not> is_api_error e"
    by (auto simp: create_backup_job_def Let_def split: sum.splits option.splits
          dest: validated_manifest_not_api)
next
  fix e
  assume "fst (update_backup_job config w sp name namespace) = Inl e"
  then show "\<not> is_api_error e"
    by (auto simp: update_backup_job_def Let_def split: sum.splits option.splits
          dest: validated_manifest_not_api)
qed

theorem api_failure_classification_witness:
  "fst (create_backup_job config0 api_create_fails spec_orders ''orders-db'' ''prod'')
     = Inl (PermanentError (''Cannot create CronJob: '' @ str_ApiException conflict))
   \<and> fst (update_backup_job config0 api_delete_fails spec_orders ''orders-db'' ''prod'')
     = Inl (TemporaryError (''Cannot update CronJob: '' @ str_ApiException not_found) 30)
   \<and> fst (update_backup_job config0 api_create_fails spec_orders ''orders-db'' ''prod'')
     = Inl (TemporaryError (''Cannot update CronJob: '' @ str_ApiException conflict) 30)
   \<and> \<not> is_api_error (PermanentError (''Cannot create CronJob: '' @ str_ApiException conflict))"
proof -
  obtain m where v: "validated_manifest config0 spec_orders ''orders-db'' ''prod'' = Inr m"
    using validated_orders by blast
  have c: "create_namespaced_cron_job api_create_fails ''prod'' (adopt api_create_fails m)
             = Some conflict"
    and d: "delete_namespaced_cron_job api_create_fails (''orders-db'' @ ''-backup'') ''prod''
             ''Foreground'' = None"
    by (simp_all add: api_create_fails_def api_ok_def)
  have d': "delete_namespaced_cron_job api_delete_fails (''orders-db'' @ ''-backup'') ''prod''
             ''Foreground'' = Some not_found"
    by (simp add: api_delete_fails_def api_ok_def)
  from api_failure_classification [of config0 spec_orders "''orders-db''" "''prod''"
      api_create_fails] v c d
  have 1: "fst (create_backup_job config0 api_create_fails spec_orders ''orders-db'' ''prod'')
     = Inl (PermanentError (''Cannot create CronJob: '' @ str_ApiException conflict))"
    and 3: "fst (update_backup_job config0 api_create_fails spec_orders ''orders-db'' ''prod'')
     = Inl (TemporaryError (''Cannot update CronJob: '' @ str_ApiException conflict) 30)"
    by blast+
  from api_failure_classification [of config0 spec_orders "''orders-db''" "''prod''"
      api_delete_fails] d'
  have 2: "fst (update_backup_job config0 api_delete_fails spec_orders ''orders-db'' ''prod'')
     = Inl (TemporaryError (''Cannot update CronJob: '' @ str_ApiException not_found) 30)"
    by blast
  from 1 2 3 show ?thesis by simp
qed

section \<open>The periodic status check\<close>

lemma status_patch_read_failed:
  "read_namespaced_cron_job w (name @ ''-backup'') namespace = Inl e \<Longrightarrow>
     status_patch_of w name namespace patch
       = (patch(''phase'' \<mapsto> JStr ''Error''))(''error'' \<mapsto> JStr (str_ApiException e))"
  by (simp add: status_patch_of_def check_backup_status_def Let_def)

lemma status_patch_read_ok:
  "read_namespaced_cron_job w (name @ ''-backup'') namespace = Inr cj \<Longrightarrow>
     status_patch_of w name namespace patch
       = ((case last_schedule_time (status cj) of
             Some t \<Rightarrow> (patch(''lastBackup'' \<mapsto> JStr (isoformat t)))(''phase'' \<mapsto> JStr ''Active'')
           | None \<Rightarrow> patch(''phase'' \<mapsto> JStr ''Pending'')))
          (''activeJobs'' \<mapsto> JInt (active_count (active (status cj))))"
  by (simp add: status_patch_of_def check_backup_status_def Let_def)

lemma str_ApiException_nonempty: "str_ApiException e \<noteq> []"
  by (simp add: str_ApiException_def)

text \<open>
  C10. When the read of the job fails, the tick writes \<open>phase\<close> and \<open>error\<close> into the
  patch and nothing else: every other key of the patch is as it was, so after the merge
  the stored \<open>lastBackup\<close> and \<open>activeJobs\<close> are the old ones. When the read succeeds
  and the job has no last schedule time, the phase written is \<open>Pending\<close> and
  \<open>lastBackup\<close> is not written, so the stored one stays.
\<close>

theorem status_check_frame:
  "(\<forall>e. read_namespaced_cron_job w (name @ ''-backup'') namespace = Inl e \<longrightarrow>
        status_patch_of w name namespace patch
          = (patch(''phase'' \<mapsto> JStr ''Error''))(''error'' \<mapsto> JStr (str_ApiException e))
      \<and> (\<forall>k. k \<noteq> ''phase'' \<longrightarrow> k \<noteq> ''error'' \<longrightarrow>
             status_patch_of w name namespace patch k = patch k)
      \<and> apply_patch stored (status_patch_of w name namespace Map.empty) ''lastBackup''
          = stored ''lastBackup''
      \<and> apply_patch stored (status_patch_of w name namespace Map.empty) ''activeJobs''
          = stored ''activeJobs''
      \<and> apply_patch stored (status_patch_of w name namespace Map.empty) ''phase''
          = Some (JStr ''Error''))
   \<and> (\<forall>cj. read_namespaced_cron_job w (name @ ''-backup'') namespace = Inr cj \<longrightarrow>
        last_schedule_time (status cj) = None \<longrightarrow>
        status_patch_of w name namespace patch ''lastBackup'' = patch ''lastBackup''
      \<and> status_patch_of w name namespace patch ''phase'' = Some (JStr ''Pending'')
      \<and> apply_patch stored (status_patch_of w name namespace Map.empty) ''lastBackup''
          = stored ''lastBackup'')"
proof (intro conjI allI impI)
  fix e
  assume r: "read_namespaced_cron_job w (name @ ''-backup'') namespace = Inl e"
  show "status_patch_of w name namespace patch
          = (patch(''phase'' \<mapsto> JStr ''Error''))(''error'' \<mapsto> JStr (str_ApiException e))"
    using r by (rule status_patch_read_failed)
  show "apply_patch stored (status_patch_of w name namespace Map.empty) ''lastBackup''
          = stored ''lastBackup''"
    and "apply_patch stored (status_patch_of w name namespace Map.empty) ''activeJobs''
          = stored ''activeJobs''"
    and "apply_patch stored (status_patch_of w name namespace Map.empty) ''phase''
          = Some (JStr ''Error'')"
    by (simp_all add: status_patch_read_failed [OF r] apply_patch_def map_add_def)
  fix k :: string
  assume "k \<noteq> ''phase''" and "k \<noteq> ''error''"
  then show "status_patch_of w name namespace patch k = patch k"
    by (simp add: status_patch_read_failed [OF r])
next
  fix cj
  assume r: "read_namespaced_cron_job w (name @ ''-backup'') namespace = Inr cj"
    and n: "last_schedule_time (status cj) = None"
  show "status_patch_of w name namespace patch ''lastBackup'' = patch ''lastBackup''"
    and "status_patch_of w name namespace patch ''phase'' = Some (JStr ''Pending'')"
    and "apply_patch stored (status_patch_of w name namespace Map.empty) ''lastBackup''
          = stored ''lastBackup''"
    by (simp_all add: status_patch_read_ok [OF r] n apply_patch_def map_add_def)
qed

theorem status_check_frame_witness:
  "apply_patch stored_active (status_patch_of api_read_fails ''orders-db'' ''prod'' Map.empty)
       ''lastBackup'' = Some (JStr ''2024-01-01T03:00:00+00:00'')
   \<and> apply_patch stored_active (status_patch_of api_read_fails ''orders-db'' ''prod'' Map.empty)
       ''activeJobs'' = Some (JInt 1)
   \<and> apply_patch stored_active (status_patch_of api_read_fails ''orders-db'' ''prod'' Map.empty)
       ''phase'' = Some (JStr ''Error'')
   \<and> apply_patch stored_active (status_patch_of api_ok ''orders-db'' ''prod'' Map.empty)
       ''lastBackup'' = Some (JStr ''2024-01-01T03:00:00+00:00'')
   \<and> status_patch_of api_ok ''orders-db'' ''prod'' Map.empty ''phase'' = Some (JStr ''Pending'')"
proof -
  have f: "read_namespaced_cron_job api_read_fails (''orders-db'' @ ''-backup'') ''prod''
             = Inl not_found"
    by (simp add: api_read_fails_def api_ok_def)
  have p: "read_namespaced_cron_job api_ok (''orders-db'' @ ''-backup'') ''prod''
             = Inr \<lparr> status = \<lparr> last_schedule_time = None, active = None \<rparr> \<rparr>"
    by (simp add: api_ok_def)
  have s: "stored_active ''lastBackup'' = Some (JStr ''2024-01-01T03:00:00+00:00'')"
    "stored_active ''activeJobs'' = Some (JInt 1)"
    by (simp_all add: stored_active_def)
  from status_check_frame [of api_read_fails "''orders-db''" "''prod''" Map.empty stored_active] f
  have 1: "apply_patch stored_active (status_patch_of api_read_fails ''orders-db'' ''prod'' Map.empty)
       ''lastBackup'' = stored_active ''lastBackup''"
    and 2: "apply_patch stored_active (status_patch_of api_read_fails ''orders-db'' ''prod'' Map.empty)
       ''activeJobs'' = stored_active ''activeJobs''"
    and 3: "apply_patch stored_active (status_patch_of api_read_fails ''orders-db'' ''prod'' Map.empty)
       ''phase'' = Some (JStr ''Error'')"
    by blast+
  from status_check_frame [of api_ok "''orders-db''" "''prod''" Map.empty stored_active] p
  have 4: "apply_patch stored_active (status_patch_of api_ok ''orders-db'' ''prod'' Map.empty)
       ''lastBackup'' = stored_active ''lastBackup''"
    and 5: "status_patch_of api_ok ''orders-db'' ''prod'' Map.empty ''phase'' = Some (JStr ''Pending'')"
    by force+
  from 1 2 3 4 5 s show ?thesis by simp
qed

text \<open>
  C2, as the code has it. On a tick whose read succeeds: a job with a last schedule time
  gives phase \<open>Active\<close> and \<open>lastBackup\<close> equal to that time, a job without one gives
  phase \<open>Pending\<close>, and in both cases \<open>activeJobs\<close> is written with the number of
  running job instances. On a tick whose read fails the phase is \<open>Error\<close> and the error
  message is not empty. The handler itself never fails.
\<close>

theorem status_derivation:
  "(\<forall>cj t. read_namespaced_cron_job w (name @ ''-backup'') namespace = Inr cj \<longrightarrow>
        last_schedule_time (status cj) = Some t \<longrightarrow>
        status_patch_of w name namespace patch ''phase'' = Some (JStr ''Active'')
      \<and> status_patch_of w name namespace patch ''lastBackup'' = Some (JStr (isoformat t)))
   \<and> (\<forall>cj. read_namespaced_cron_job w (name @ ''-backup'') namespace = Inr cj \<longrightarrow>
        last_schedule_time (status cj) = None \<longrightarrow>
        status_patch_of w name namespace patch ''phase'' = Some (JStr ''Pending''))
   \<and> (\<forall>e. read_namespaced_cron_job w (name @ ''-backup'') namespace = Inl e \<longrightarrow>
        status_patch_of w name namespace patch ''phase'' = Some (JStr ''Error'')
      \<and> status_patch_of w name namespace patch ''error'' = Some (JStr (str_ApiException e))
      \<and> str_ApiException e \<noteq> [])
   \<and> (\<forall>cj. read_namespaced_cron_job w (name @ ''-backup'') namespace = Inr cj \<longrightarrow>
        status_patch_of w name namespace patch ''activeJobs''
          = Some (JInt (case active (status cj) of None \<Rightarrow> 0 | Some js \<Rightarrow> int (length js))))
   \<and> fst (check_backup_status w name namespace patch) = Inr ()"
proof (intro conjI allI impI)
  fix cj t
  assume r: "read_namespaced_cron_job w (name @ ''-backup'') namespace = Inr cj"
    and t: "last_schedule_time (status cj) = Some t"
  show "status_patch_of w name namespace patch ''phase'' = Some (JStr ''Active'')"
    and "status_patch_of w name namespace patch ''lastBackup'' = Some (JStr (isoformat t))"
    by (simp_all add: status_patch_read_ok [OF r] t)
next
  fix cj
  assume r: "read_namespaced_cron_job w (name @ ''-backup'') namespace = Inr cj"
    and n: "last_schedule_time (status cj) = None"
  show "status_patch_of w name namespace patch ''phase'' = Some (JStr ''Pending'')"
    by (simp add: status_patch_read_ok [OF r] n)
next
  fix e
  assume r: "read_namespaced_cron_job w (name @ ''-backup'') namespace = Inl e"
  show "status_patch_of w name namespace patch ''phase'' = Some (JStr ''Error'')"
    and "status_patch_of w name namespace patch ''error'' = Some (JStr (str_ApiException e))"
    by (simp_all add: status_patch_read_failed [OF r])
  show "str_ApiException e \<noteq> []" by (rule str_ApiException_nonempty)
next
  fix cj
  assume r: "read_namespaced_cron_job w (name @ ''-backup'') namespace = Inr cj"
  show "status_patch_of w name namespace patch ''activeJobs''
          = Some (JInt (case active (status cj) of None \<Rightarrow> 0 | Some js \<Rightarrow> int (length js)))"
    by (simp add: status_patch_read_ok [OF r] active_count_def split: option.splits)
next
  show "fst (check_backup_status w name namespace patch) = Inr ()"
    by (simp add: check_backup_status_def Let_def split: sum.splits)
qed

theorem status_derivation_witness:
  "status_patch_of api_active ''orders-db'' ''prod'' no_patch ''phase'' = Some (JStr ''Active'')
   \<and> status_patch_of api_active ''orders-db'' ''prod'' no_patch ''lastBackup''
       = Some (JStr ''2024-01-02T03:00:00+00:00'')
   \<and> status_patch_of api_active ''orders-db'' ''prod'' no_patch ''activeJobs'' = Some (JInt 2)
   \<and> status_patch_of api_ok ''orders-db'' ''prod'' no_patch ''phase'' = Some (JStr ''Pending'')
   \<and> status_patch_of api_read_fails ''orders-db'' ''prod'' no_patch ''phase'' = Some (JStr ''Error'')
   \<and> status_patch_of api_read_fails ''orders-db'' ''prod'' no_patch ''error''
       = Some (JStr (str_ApiException not_found))"
proof -
  have a: "read_namespaced_cron_job api_active (''orders-db'' @ ''-backup'') ''prod''
             = Inr \<lparr> status = \<lparr> last_schedule_time = Some (Datetime ''2024-01-02T03:00:00+00:00''),
                               active = Some [''orders-db-backup-1'', ''orders-db-backup-2''] \<rparr> \<rparr>"
    by (simp add: api_active_def api_ok_def)
  have p: "read_namespaced_cron_job api_ok (''orders-db'' @ ''-backup'') ''prod''
             = Inr \<lparr> status = \<lparr> last_schedule_time = None, active = None \<rparr> \<rparr>"
    by (simp add: api_ok_def)
  have f: "read_namespaced_cron_job api_read_fails (''orders-db'' @ ''-backup'') ''prod''
             = Inl not_found"
    by (simp add: api_read_fails_def api_ok_def)
  from status_derivation [of api_active "''orders-db''" "''prod''" no_patch] a
  have 1: "status_patch_of api_active ''orders-db'' ''prod'' no_patch ''phase'' = Some (JStr ''Active'')"
    and 2: "status_patch_of api_active ''orders-db'' ''prod'' no_patch ''lastBackup''
       = Some (JStr ''2024-01-02T03:00:00+00:00'')"
    and 3: "status_patch_of api_active ''orders-db'' ''prod'' no_patch ''activeJobs'' = Some (JInt 2)"
    by force+
  from status_derivation [of api_ok "''orders-db''" "''prod''" no_patch] p
  have 4: "status_patch_of api_ok ''orders-db'' ''prod'' no_patch ''phase'' = Some (JStr ''Pending'')"
    by force
  from status_derivation [of api_read_fails "''orders-db''" "''prod''" no_patch] f
  have 5: "status_patch_of api_read_fails ''orders-db'' ''prod'' no_patch ''phase'' = Some (JStr ''Error'')"
    and 6: "status_patch_of api_read_fails ''orders-db'' ''prod'' no_patch ''error''
       = Some (JStr (str_ApiException not_found))"
    by blast+
  from 1 2 3 4 5 6 show ?thesis by simp
qed

text \<open>
  A tick whose read fails: \<open>activeJobs\<close> is not written, against the claim that the count
  is recorded on every tick.
\<close>

theorem status_read_failure_no_count:
  "status_patch_of api_read_fails ''orders-db'' ''prod'' no_patch ''activeJobs'' = None"
  by (simp add: status_patch_of_def check_backup_status_def Let_def api_read_fails_def
        api_ok_def no_patch_def)

end
